theory Spec2Isabelle
  imports Main "HOL-Library.AList"
begin

section \<open>Buffers of the array libraries\<close>

text \<open>
  \<^verbatim>\<open>dictarray.py\<close> wraps buffers of two array libraries: numpy (host memory) and,
  when it can be imported, cupy (accelerator memory). The module-level name \<^verbatim>\<open>cupy\<close>
  is the imported module or \<^verbatim>\<open>None\<close>; every function below that reads it takes it
  as the flag \<open>cupy\<close>.

  A buffer is modelled by the class of the Python object, its dtype, its shape and its
  elements in row-major order. Element values are kept polymorphic.
\<close>

datatype Device = CPU | GPU

datatype dtype = Int32 | Int64 | Float32 | Float64

datatype array_type = NumpyArray | CupyArray | OtherType

record 'a ndarray =
  atype :: array_type
  adtype :: dtype
  ashape :: "nat list"
  elems :: "'a list"

text \<open>
  Exceptions. \<open>TypeError\<close> and \<open>ValueError\<close> carry the message of the \<^verbatim>\<open>raise\<close>
  statement of the source (or of the interpreter), written without its quotation marks.
\<close>

datatype error = TypeError string | ValueError string | IndexError | AttributeError string

definition unsupported_values_msg :: string where
  "unsupported_values_msg = ''Column only supports values of type numpy.ndarray or cupy.ndarray.''"

definition no_cupy_msg :: string where
  "no_cupy_msg = ''Unable to move Column data between CPU and GPU without Cupy installed.''"

definition too_many_dims_msg :: string where
  "too_many_dims_msg = ''Values with dimensions higher than 2 are not supported.''"

definition bool_not_iterable_msg :: string where
  "bool_not_iterable_msg = ''bool object is not iterable''"

definition int_no_item_msg :: string where
  "int_no_item_msg = ''int object has no attribute item''"

definition list_no_shape_msg :: string where
  "list_no_shape_msg = ''list object has no attribute shape''"

definition none_operand_msg :: string where
  "none_operand_msg = ''unsupported operand type(s) for -: NoneType and int''"

definition len_unsized_msg :: string where
  "len_unsized_msg = ''len() of unsized object''"

definition implicit_conversion_msg :: string where
  "implicit_conversion_msg = ''Implicit conversion to a NumPy array is not allowed.''"

text \<open>
  Values handed to the constructors: a Python list (with the dtype the array library
  infers for its elements) or an array object. Row lengths are a one-dimensional sequence
  of integers: a Python list or a one-dimensional array.
\<close>

datatype 'a pyvalue = PyList dtype "'a list" | PyArray "'a ndarray"

datatype rowlens = RowLensList "int list" | RowLensArray array_type dtype "int list"

fun rl_items :: "rowlens \<Rightarrow> int list" where
  "rl_items (RowLensList xs) = xs"
| "rl_items (RowLensArray t d xs) = xs"

definition int_list_dtype :: "int list \<Rightarrow> dtype" where
  \<comment> \<open>the dtype numpy and cupy infer for a list of Python ints; an empty list gives float64\<close>
  "int_list_dtype xs = (if xs = [] then Float64 else Int64)"

definition array_lib :: "bool \<Rightarrow> array_type" where
  \<comment> \<open>\<^verbatim>\<open>_array_lib()\<close>: cupy if cupy else np\<close>
  "array_lib cupy = (if cupy then CupyArray else NumpyArray)"

definition make_array :: "bool \<Rightarrow> 'a pyvalue \<Rightarrow> 'a ndarray" where
  \<comment> \<open>\<^verbatim>\<open>_make_array\<close> on the values argument\<close>
  "make_array cupy v =
     (case v of
        PyList d xs \<Rightarrow> \<lparr>atype = array_lib cupy, adtype = d, ashape = [length xs], elems = xs\<rparr>
      | PyArray a \<Rightarrow> a)"

definition make_array_rl :: "bool \<Rightarrow> rowlens option \<Rightarrow> rowlens option" where
  \<comment> \<open>\<^verbatim>\<open>_make_array\<close> on the row\_lengths argument; \<^verbatim>\<open>None\<close> is returned as it is\<close>
  "make_array_rl cupy r =
     (case r of
        None \<Rightarrow> None
      | Some (RowLensList xs) \<Rightarrow> Some (RowLensArray (array_lib cupy) (int_list_dtype xs) xs)
      | Some (RowLensArray t d xs) \<Rightarrow> Some (RowLensArray t d xs))"

subsection \<open>Indexing and slicing along the first axis\<close>

definition py_index :: "'b list \<Rightarrow> int \<Rightarrow> error + 'b" where
  \<comment> \<open>\<^verbatim>\<open>xs[i]\<close>: a negative index counts from the end, out of range raises\<close>
  "py_index xs i =
     (if 0 \<le> i \<and> i < int (length xs) then Inr (xs ! nat i)
      else if i < 0 \<and> - int (length xs) \<le> i then Inr (xs ! nat (i + int (length xs)))
      else Inl IndexError)"

definition slice_bounds :: "nat \<Rightarrow> int \<Rightarrow> int \<Rightarrow> nat \<times> nat" where
  \<comment> \<open>\<^verbatim>\<open>[start:stop]\<close> on a sequence of length n: first position and number of items\<close>
  "slice_bounds n start stop =
     (let s = (if start < 0 then max (start + int n) 0 else min start (int n));
          e = (if stop < 0 then max (stop + int n) 0 else min stop (int n))
      in (nat s, nat (e - s)))"

definition array_slice :: "'a ndarray \<Rightarrow> int \<Rightarrow> int \<Rightarrow> error + 'a ndarray" where
  \<comment> \<open>\<^verbatim>\<open>a[start:stop]\<close>\<close>
  "array_slice a start stop =
     (case ashape a of
        [] \<Rightarrow> Inl IndexError
      | n # rest \<Rightarrow>
          (let (s, k) = slice_bounds n start stop; w = prod_list rest
           in Inr (a\<lparr>ashape := k # rest, elems := take (k * w) (drop (s * w) (elems a))\<rparr>)))"

datatype 'a pyobj = Scalar 'a | Array "'a ndarray"

definition array_index :: "'a ndarray \<Rightarrow> int \<Rightarrow> error + 'a pyobj" where
  \<comment> \<open>\<^verbatim>\<open>a[i]\<close>: an element of a 1-D array, a sub-array of a higher-dimensional one\<close>
  "array_index a i =
     (case ashape a of
        [] \<Rightarrow> Inl IndexError
      | n # rest \<Rightarrow>
          (let j = (if i < 0 then int n + i else i); w = prod_list rest
           in if 0 \<le> j \<and> j < int n
              then (if rest = [] then Inr (Scalar (elems a ! nat j))
                    else Inr (Array (a\<lparr>ashape := rest,
                                          elems := take w (drop (nat j * w) (elems a))\<rparr>)))
              else Inl IndexError))"

definition flatten :: "'a ndarray \<Rightarrow> 'a ndarray" where
  \<comment> \<open>\<^verbatim>\<open>value.flatten()\<close>\<close>
  "flatten a = a\<lparr>ashape := [prod_list (ashape a)]\<rparr>"

definition array_len :: "'a ndarray \<Rightarrow> error + nat" where
  \<comment> \<open>\<^verbatim>\<open>len(a)\<close>\<close>
  "array_len a = (case ashape a of [] \<Rightarrow> Inl (TypeError len_unsized_msg) | n # rest \<Rightarrow> Inr n)"

definition well_formed :: "'a ndarray \<Rightarrow> bool" where
  \<comment> \<open>a buffer holds as many elements as its shape says\<close>
  "well_formed a = (length (elems a) = prod_list (ashape a))"

section \<open>Column\<close>

record 'a Column =
  "values" :: "'a ndarray"
  row_lengths :: "rowlens option"
  dtype :: dtype
  device :: Device

definition Column_init :: "bool \<Rightarrow> 'a pyvalue \<Rightarrow> rowlens option \<Rightarrow> error + 'a Column" where
  \<comment> \<open>\<^verbatim>\<open>Column.__init__(values, row_lengths=None)\<close>\<close>
  "Column_init cupy vals rls =
     (let v = make_array cupy vals;
          rl = make_array_rl cupy rls;
          rl' = (if length (ashape v) = 2
                 then Some (RowLensList (replicate (ashape v ! 0) (int (ashape v ! 1))))
                 else rl)
      in if atype v = NumpyArray
         then Inr \<lparr>values = v, row_lengths = rl', dtype = adtype v, device = CPU\<rparr>
         else if cupy \<and> atype v = CupyArray
         then Inr \<lparr>values = v, row_lengths = rl', dtype = adtype v, device = GPU\<rparr>
         else Inl (TypeError unsupported_values_msg))"

fun cumsum_from :: "int \<Rightarrow> int list \<Rightarrow> int list" where
  "cumsum_from acc [] = []"
| "cumsum_from acc (x # xs) = (acc + x) # cumsum_from (acc + x) xs"

definition cumsum :: "int list \<Rightarrow> int list" where
  \<comment> \<open>\<^verbatim>\<open>np.cumsum\<close>: the running (inclusive) sums\<close>
  "cumsum xs = cumsum_from 0 xs"

definition offsets :: "'a Column \<Rightarrow> error + int list" where
  \<comment> \<open>the property \<^verbatim>\<open>offsets\<close>: \<^verbatim>\<open>np.cumsum(self.row_lengths) - 1\<close>, the contents of the
      resulting 1-D array\<close>
  "offsets self =
     (case row_lengths self of
        None \<Rightarrow> Inl (TypeError none_operand_msg)
      | Some rl \<Rightarrow> Inr (map (\<lambda>x. x - 1) (cumsum (rl_items rl))))"

subsection \<open>Device transfer\<close>

definition cupy_asarray :: "'a ndarray \<Rightarrow> 'a ndarray" where
  "cupy_asarray a = a\<lparr>atype := CupyArray\<rparr>"

definition cupy_asnumpy :: "'a ndarray \<Rightarrow> 'a ndarray" where
  "cupy_asnumpy a = a\<lparr>atype := NumpyArray\<rparr>"

fun rl_to :: "array_type \<Rightarrow> rowlens \<Rightarrow> rowlens" where
  \<comment> \<open>\<^verbatim>\<open>cupy.asarray\<close> / \<^verbatim>\<open>cupy.asnumpy\<close> on the row lengths; a list becomes an array\<close>
  "rl_to t (RowLensList xs) = RowLensArray t (int_list_dtype xs) xs"
| "rl_to t (RowLensArray t' d xs) = RowLensArray t d xs"

datatype transfer = AsArray | AsNumpy

definition device_move :: "transfer \<Rightarrow> 'a Column \<Rightarrow> 'a Column" where
  \<comment> \<open>\<^verbatim>\<open>_device_move(fn)\<close>: only \<^verbatim>\<open>values\<close> and \<^verbatim>\<open>row_lengths\<close> are assigned\<close>
  "device_move fn self =
     (case fn of
        AsArray \<Rightarrow> self\<lparr>values := cupy_asarray (values self),
                        row_lengths := map_option (rl_to CupyArray) (row_lengths self)\<rparr>
      | AsNumpy \<Rightarrow> self\<lparr>values := cupy_asnumpy (values self),
                        row_lengths := map_option (rl_to NumpyArray) (row_lengths self)\<rparr>)"

datatype device_arg = ByEnum Device | ByName string

definition set_device :: "bool \<Rightarrow> 'a Column \<Rightarrow> device_arg \<Rightarrow> error + 'a Column" where
  \<comment> \<open>the setter of the property \<^verbatim>\<open>device\<close>; the result is the column after the assignment\<close>
  "set_device cupy self dev =
     (if \<not> cupy then Inl (ValueError no_cupy_msg)
      else
        (let dev' = (if dev = ByName ''cpu'' then ByEnum CPU
                     else if dev = ByName ''gpu'' then ByEnum GPU else dev)
         in if device self = CPU \<and> dev' = ByEnum GPU then Inr (device_move AsArray self)
            else if device self = GPU \<and> dev' = ByEnum CPU then Inr (device_move AsNumpy self)
            else Inr self))"

definition cpu :: "bool \<Rightarrow> 'a Column \<Rightarrow> error + 'a Column" where
  \<comment> \<open>\<^verbatim>\<open>self.device = Device.CPU; return self\<close>\<close>
  "cpu cupy self = set_device cupy self (ByEnum CPU)"

definition gpu :: "bool \<Rightarrow> 'a Column \<Rightarrow> error + 'a Column" where
  \<comment> \<open>\<^verbatim>\<open>self.device = Device.GPU; return self\<close>\<close>
  "gpu cupy self = set_device cupy self (ByEnum GPU)"

subsection \<open>Row access and introspection\<close>

definition rl_item :: "rowlens \<Rightarrow> int \<Rightarrow> error + int" where
  \<comment> \<open>\<^verbatim>\<open>self.row_lengths[index].item()\<close>: a Python int has no \<^verbatim>\<open>item\<close>\<close>
  "rl_item rl i =
     (case rl of
        RowLensList xs \<Rightarrow>
          (case py_index xs i of Inl e \<Rightarrow> Inl e | Inr x \<Rightarrow> Inl (AttributeError int_no_item_msg))
      | RowLensArray t d xs \<Rightarrow> py_index xs i)"

definition Column_getitem :: "'a Column \<Rightarrow> int \<Rightarrow> error + 'a pyobj" where
  \<comment> \<open>\<^verbatim>\<open>Column.__getitem__(index)\<close>\<close>
  "Column_getitem self index =
     (case row_lengths self of
        Some rl \<Rightarrow>
          (case offsets self of
             Inl e \<Rightarrow> Inl e
           | Inr offs \<Rightarrow>
               (case py_index offs index of
                  Inl e \<Rightarrow> Inl e
                | Inr start \<Rightarrow>
                    (case rl_item rl index of
                       Inl e \<Rightarrow> Inl e
                     | Inr n \<Rightarrow>
                         (case array_slice (values self) start (start + n) of
                            Inl e \<Rightarrow> Inl e
                          | Inr s \<Rightarrow> Inr (Array s)))))
      | None \<Rightarrow> array_index (values self) index)"

definition Column_len :: "'a Column \<Rightarrow> error + nat" where
  \<comment> \<open>\<^verbatim>\<open>Column.__len__\<close>\<close>
  "Column_len self =
     (case row_lengths self of
        Some rl \<Rightarrow> Inr (length (rl_items rl))
      | None \<Rightarrow> array_len (values self))"

definition is_ragged :: "'a Column \<Rightarrow> error + bool" where
  \<comment> \<open>\<^verbatim>\<open>self.row_lengths is not None and any(self.row_lengths != self.row_lengths[0])\<close>;
      a list compared with an int is the bool \<^verbatim>\<open>True\<close>, which \<^verbatim>\<open>any\<close> cannot iterate\<close>
  "is_ragged self =
     (case row_lengths self of
        None \<Rightarrow> Inr False
      | Some (RowLensList xs) \<Rightarrow>
          (case py_index xs 0 of
             Inl e \<Rightarrow> Inl e
           | Inr x0 \<Rightarrow> Inl (TypeError bool_not_iterable_msg))
      | Some (RowLensArray t d xs) \<Rightarrow>
          (case py_index xs 0 of
             Inl e \<Rightarrow> Inl e
           | Inr x0 \<Rightarrow> Inr (list_ex (\<lambda>x. x \<noteq> x0) xs)))"

datatype shape_result = RowsWidth nat "int option" | NativeShape "nat list"

definition Column_shape :: "'a Column \<Rightarrow> error + shape_result" where
  \<comment> \<open>the property \<^verbatim>\<open>shape\<close>\<close>
  "Column_shape self =
     (case row_lengths self of
        Some rl \<Rightarrow>
          (case is_ragged self of
             Inl e \<Rightarrow> Inl e
           | Inr ragged \<Rightarrow>
               (case (if ragged then map_sum id Some (py_index (rl_items rl) 0) else Inr None) of
                  Inl e \<Rightarrow> Inl e
                | Inr dim \<Rightarrow>
                    (case Column_len self of
                       Inl e \<Rightarrow> Inl e
                     | Inr n \<Rightarrow> Inr (RowsWidth n dim))))
      | None \<Rightarrow> Inr (NativeShape (ashape (values self))))"

definition is_list :: "'a Column \<Rightarrow> error + bool" where
  \<comment> \<open>the property \<^verbatim>\<open>is_list\<close>; the elements of the modelled buffers are scalars, so the two
      \<^verbatim>\<open>isinstance\<close> tests on \<^verbatim>\<open>self.values[0]\<close> are false once the read has succeeded\<close>
  "is_list self =
     (if length (ashape (values self)) > 1 then Inr True
      else if row_lengths self \<noteq> None then Inr True
      else (case array_index (values self) 0 of Inl e \<Rightarrow> Inl e | Inr x \<Rightarrow> Inr False))"

definition I1 :: "'a Column \<Rightarrow> bool" where
  \<comment> \<open>Invariant I1: if \<^verbatim>\<open>row_lengths\<close> is present, \<^verbatim>\<open>sum(row_lengths) == len(values)\<close>\<close>
  "I1 self =
     (case row_lengths self of
        None \<Rightarrow> True
      | Some rl \<Rightarrow>
          (case array_len (values self) of
             Inl e \<Rightarrow> False
           | Inr n \<Rightarrow> sum_list (rl_items rl) = int n))"

section \<open>Normalising a value into a Column\<close>

text \<open>
  \<^verbatim>\<open>_make_column\<close> receives a Column, a tuple \<^verbatim>\<open>(values, row_lengths)\<close>, or anything
  else, which it takes for an array and reads the \<^verbatim>\<open>shape\<close> of.
\<close>

datatype 'a colinput =
    InColumn "'a Column"
  | InTuple "'a pyvalue" "rowlens option"
  | InValue "'a pyvalue"

definition make_column :: "bool \<Rightarrow> 'a colinput \<Rightarrow> error + 'a Column" where
  \<comment> \<open>\<^verbatim>\<open>_make_column(value)\<close>\<close>
  "make_column cupy v =
     (case v of
        InColumn c \<Rightarrow> Inr c
      | InTuple vals rls \<Rightarrow> Column_init cupy vals rls
      | InValue (PyList d xs) \<Rightarrow> Inl (AttributeError list_no_shape_msg)
      | InValue (PyArray a) \<Rightarrow>
          (if length (ashape a) > 2 then Inl (ValueError too_many_dims_msg)
           else if length (ashape a) = 2
           then Column_init cupy (PyArray (flatten a))
                  (Some (RowLensList (replicate (ashape a ! 0) (int (ashape a ! 1)))))
           else Column_init cupy (PyArray a) None))"

section \<open>DictArray\<close>

text \<open>
  The attribute \<^verbatim>\<open>_columns\<close> is a Python dict, which keeps insertion order: an
  association list, updated with \<^const>\<open>AList.update\<close>.
\<close>

type_synonym 'a DictArray = "(string \<times> 'a Column) list"

fun DictArray_init_loop ::
  "bool \<Rightarrow> (string \<times> 'a colinput) list \<Rightarrow> 'a DictArray \<Rightarrow> error + 'a DictArray" where
  "DictArray_init_loop cupy [] acc = Inr acc"
| "DictArray_init_loop cupy ((key, v) # rest) acc =
     (case make_column cupy v of
        Inl e \<Rightarrow> Inl e
      | Inr c \<Rightarrow> DictArray_init_loop cupy rest (AList.update key c acc))"

definition DictArray_init :: "bool \<Rightarrow> (string \<times> 'a colinput) list \<Rightarrow> error + 'a DictArray" where
  \<comment> \<open>\<^verbatim>\<open>{key: _make_column(value) for key, value in values.items()}\<close>\<close>
  "DictArray_init cupy vs = DictArray_init_loop cupy vs []"

definition columns :: "'a DictArray \<Rightarrow> string list" where
  "columns self = map fst self"

definition dtypes :: "'a DictArray \<Rightarrow> (string \<times> dtype) list" where
  \<comment> \<open>\<^verbatim>\<open>{key: value.dtype for key, value in self._columns.items()}\<close>\<close>
  "dtypes self = map (\<lambda>(key, c). (key, dtype c)) self"

subsection \<open>Equality of tables\<close>

text \<open>
  \<^verbatim>\<open>DictArray.values()\<close> returns \<^verbatim>\<open>self._columns.values()\<close>, and every call of
  \<^verbatim>\<open>dict.values()\<close> allocates a new view object. View objects define no \<^verbatim>\<open>__eq__\<close>,
  so \<^verbatim>\<open>==\<close> on them is the identity test of \<^verbatim>\<open>object\<close>. Object identity is
  modelled by an allocation counter: the next free object id is passed in and returned.
\<close>

datatype 'a dict_values = DictValues (view_id: nat) (view_of: "'a DictArray")

definition DictArray_values :: "'a DictArray \<Rightarrow> nat \<Rightarrow> 'a dict_values \<times> nat" where
  "DictArray_values self next_id = (DictValues next_id self, Suc next_id)"

definition dict_values_eq :: "'a dict_values \<Rightarrow> 'a dict_values \<Rightarrow> bool" where
  "dict_values_eq v w = (view_id v = view_id w)"

definition dict_eq :: "(string \<times> dtype) list \<Rightarrow> (string \<times> dtype) list \<Rightarrow> bool" where
  \<comment> \<open>\<^verbatim>\<open>==\<close> on dicts: the same keys with the same values, in any order\<close>
  "dict_eq d e =
     (list_all (\<lambda>(k, x). map_of e k = Some x) d \<and> list_all (\<lambda>(k, x). map_of d k = Some x) e)"

definition DictArray_eq :: "'a DictArray \<Rightarrow> 'a DictArray \<Rightarrow> nat \<Rightarrow> bool \<times> nat" where
  \<comment> \<open>\<^verbatim>\<open>self.values() == other.values() and self.dtypes() == other.dtypes()\<close>\<close>
  "DictArray_eq self other next_id =
     (let (v, id1) = DictArray_values self next_id;
          (w, id2) = DictArray_values other id1
      in (if dict_values_eq v w then dict_eq (dtypes self) (dtypes other) else False, id2))"

section \<open>Dataframes\<close>

text \<open>
  The dataframe library is \<^verbatim>\<open>get_lib()\<close> of \<^verbatim>\<open>merlin.core.dispatch\<close>: pandas, or cudf
  where a GPU is present. A series is a flat buffer, a pandas list column whose rows are
  array objects of their own (Encoding A), or a cudf list column: one buffer of elements
  and an array of int32 offsets (Encoding B).
\<close>

datatype df_lib = Pandas | Cudf

datatype 'a series =
    Flat df_lib "'a ndarray"
  | EncodingA dtype "'a list list"
  | EncodingB "'a ndarray" "int list"

type_synonym 'a DataFrame = "(string \<times> 'a series) list"

definition wrap32 :: "int \<Rightarrow> int" where
  \<comment> \<open>the value of an integer stored as int32\<close>
  "wrap32 x = (x + 2 ^ 31) mod 2 ^ 32 - 2 ^ 31"

definition py_slice :: "'b list \<Rightarrow> int \<Rightarrow> int \<Rightarrow> 'b list" where
  "py_slice xs start stop = (let (s, k) = slice_bounds (length xs) start stop in take k (drop s xs))"

definition one_dim_msg :: string where
  "one_dim_msg = ''Data must be 1-dimensional''"

definition Series :: "df_lib \<Rightarrow> 'a ndarray \<Rightarrow> error + 'a ndarray" where
  \<comment> \<open>Modelled from the spec: the constructor \<^verbatim>\<open>df_lib.Series\<close> of the dataframe library is
      not part of the sources. A series holds a one-dimensional buffer in the memory of
      its library; pandas does not convert a cupy array.\<close>
  "Series lib a =
     (if length (ashape a) \<noteq> 1 then Inl (ValueError one_dim_msg)
      else (case lib of
              Pandas \<Rightarrow> (if atype a = CupyArray then Inl (TypeError implicit_conversion_msg)
                         else Inr (a\<lparr>atype := NumpyArray\<rparr>))
            | Cudf \<Rightarrow> Inr (a\<lparr>atype := CupyArray\<rparr>)))"

fun pandas_rows :: "'a list \<Rightarrow> int \<Rightarrow> int list \<Rightarrow> 'a list list" where
  "pandas_rows els offset [] = []"
| "pandas_rows els offset (n # ns) =
     py_slice els offset (offset + n) # pandas_rows els (offset + n) ns"

definition build_pandas_list_column :: "'a ndarray \<Rightarrow> int list \<Rightarrow> 'a series" where
  \<comment> \<open>Modelled from the spec: \<^verbatim>\<open>build_pandas_list_column\<close> of \<^verbatim>\<open>merlin.core.dispatch\<close> is
      not part of the sources. Construction of Encoding A: slice the values at each
      \<^verbatim>\<open>[offset(i), offset(i) + row_lengths[i])\<close>, the offset being the sum of the lengths
      before, and materialise one sub-sequence per row.\<close>
  "build_pandas_list_column elements lens = EncodingA (adtype elements) (pandas_rows (elems elements) 0 lens)"

definition build_cudf_list_column :: "'a ndarray \<Rightarrow> int list \<Rightarrow> 'a series" where
  \<comment> \<open>Modelled from the spec: \<^verbatim>\<open>build_cudf_list_column\<close> of \<^verbatim>\<open>merlin.core.dispatch\<close> is
      not part of the sources. Encoding B: the flat buffer, accompanied by the boundary
      array it is given.\<close>
  "build_cudf_list_column elements bounds = EncodingB elements bounds"

fun is_list_dtype :: "'a series \<Rightarrow> bool" where
  \<comment> \<open>Modelled from the spec: \<^verbatim>\<open>is_list_dtype\<close> of \<^verbatim>\<open>merlin.core.dispatch\<close> is not part of
      the sources. It detects whether a source column is list-typed.\<close>
  "is_list_dtype (Flat lib a) = False"
| "is_list_dtype (EncodingA d rows) = True"
| "is_list_dtype (EncodingB a bounds) = True"

fun flatten_list_column_values :: "'a series \<Rightarrow> 'a ndarray" where
  \<comment> \<open>Modelled from the spec: \<^verbatim>\<open>flatten_list_column_values\<close> of \<^verbatim>\<open>merlin.core.dispatch\<close>,
      followed by \<^verbatim>\<open>.values\<close>, is not part of the sources. Encoding A: the concatenation of
      the sub-sequences in row order; Encoding B: the single flat buffer shared by all rows.\<close>
  "flatten_list_column_values (EncodingA d rows) =
     \<lparr>atype = NumpyArray, adtype = d, ashape = [length (concat rows)], elems = concat rows\<rparr>"
| "flatten_list_column_values (EncodingB a bounds) = a\<lparr>atype := CupyArray\<rparr>"
| "flatten_list_column_values (Flat lib a) = a"

definition adjacent_diffs :: "int list \<Rightarrow> int list" where
  \<comment> \<open>\<^verbatim>\<open>b[1:] - b[:-1]\<close> on int32 arrays\<close>
  "adjacent_diffs b = map (\<lambda>(hi, lo). wrap32 (hi - lo)) (zip (tl b) (butlast b))"

fun get_series_offsets :: "'a series \<Rightarrow> rowlens" where
  \<comment> \<open>\<^verbatim>\<open>get_series_offsets(series)\<close>\<close>
  "get_series_offsets (Flat lib a) = RowLensArray NumpyArray Float64 []"
| "get_series_offsets (EncodingA d rows) =
     RowLensArray NumpyArray (int_list_dtype (map (int \<circ> length) rows)) (map (int \<circ> length) rows)"
| "get_series_offsets (EncodingB a bounds) = RowLensArray CupyArray Int32 (adjacent_diffs bounds)"

definition to_df_column :: "df_lib \<Rightarrow> 'a Column \<Rightarrow> error + 'a series" where
  \<comment> \<open>the body of the loop of \<^verbatim>\<open>DictArray.to_df\<close>\<close>
  "to_df_column lib c =
     (case is_list c of
        Inl e \<Rightarrow> Inl e
      | Inr False \<Rightarrow> map_sum id (Flat lib) (Series lib (values c))
      | Inr True \<Rightarrow>
          (case Series lib (values c) of
             Inl e \<Rightarrow> Inl e
           | Inr values_series \<Rightarrow>
               (case lib of
                  Pandas \<Rightarrow>
                    (case row_lengths c of
                       None \<Rightarrow> Inr (build_pandas_list_column values_series [])
                     | Some (RowLensArray CupyArray d xs) \<Rightarrow> Inl (TypeError implicit_conversion_msg)
                     | Some rl \<Rightarrow> Inr (build_pandas_list_column values_series (rl_items rl)))
                | Cudf \<Rightarrow>
                    (case offsets c of
                       Inl e \<Rightarrow> Inl e
                     | Inr offs \<Rightarrow>
                         Inr (build_cudf_list_column values_series
                                (map wrap32 (offs @ [int (hd (ashape (values c)))])))))))"

fun to_df :: "df_lib \<Rightarrow> 'a DictArray \<Rightarrow> error + 'a DataFrame" where
  \<comment> \<open>\<^verbatim>\<open>DictArray.to_df\<close>: the columns in order, under their names\<close>
  "to_df lib [] = Inr []"
| "to_df lib ((name, c) # rest) =
     (case to_df_column lib c of
        Inl e \<Rightarrow> Inl e
      | Inr s \<Rightarrow> (case to_df lib rest of Inl e \<Rightarrow> Inl e | Inr df \<Rightarrow> Inr ((name, s) # df)))"

definition to_numpy :: "'a series \<Rightarrow> 'a ndarray" where
  \<comment> \<open>Modelled from the spec: \<^verbatim>\<open>Series.to_numpy()\<close> of the dataframe library is not part of
      the sources. A non-list column degenerates to identity: the flat buffer taken as it
      is, as a host array.\<close>
  "to_numpy s = (flatten_list_column_values s)\<lparr>atype := NumpyArray\<rparr>"

definition from_df_column :: "'a series \<Rightarrow> 'a colinput" where
  \<comment> \<open>the body of the loop of \<^verbatim>\<open>DictArray.from_df\<close>\<close>
  "from_df_column s =
     (if is_list_dtype s
      then InTuple (PyArray (flatten_list_column_values s)) (Some (get_series_offsets s))
      else InValue (PyArray (to_numpy s)))"

definition from_df :: "bool \<Rightarrow> 'a DataFrame \<Rightarrow> error + 'a DictArray" where
  \<comment> \<open>\<^verbatim>\<open>DictArray.from_df(df)\<close>\<close>
  "from_df cupy df = DictArray_init cupy (map (\<lambda>(name, s). (name, from_df_column s)) df)"

section \<open>Where the buffers of a column are\<close>

fun rl_resides :: "array_type \<Rightarrow> rowlens option \<Rightarrow> bool" where
  "rl_resides t None = True"
| "rl_resides t (Some (RowLensArray t' d xs)) = (t' = t)"
| "rl_resides t (Some (RowLensList xs)) = False"

definition resides :: "array_type \<Rightarrow> 'a Column \<Rightarrow> bool" where
  \<comment> \<open>the values and the row lengths, if present, are arrays of the library t\<close>
  "resides t self = (atype (values self) = t \<and> rl_resides t (row_lengths self))"

section \<open>Scenario data\<close>

text \<open>
  The columns of the scenarios: six values in rows of lengths 2, 3 and 1; twelve values of
  shape (3, 4); five values on the accelerator in rows of lengths 2 and 3.
\<close>

definition buffer6 :: "int ndarray" where
  "buffer6 = \<lparr>atype = NumpyArray, adtype = Int64, ashape = [6], elems = [1, 2, 3, 4, 5, 6]\<rparr>"

definition scenario_column :: "int Column" where
  "scenario_column =
     \<lparr>values = buffer6, row_lengths = Some (RowLensArray NumpyArray Int64 [2, 3, 1]),
      dtype = Int64, device = CPU\<rparr>"

definition flat_column :: "int Column" where
  "flat_column = \<lparr>values = buffer6, row_lengths = None, dtype = Int64, device = CPU\<rparr>"

definition buffer34 :: "int ndarray" where
  "buffer34 = \<lparr>atype = NumpyArray, adtype = Int64, ashape = [3, 4],
               elems = [0, 1, 2, 3, 4, 5, 6, 7, 8, 9, 10, 11]\<rparr>"

definition uniform_column :: "int Column" where
  "uniform_column =
     \<lparr>values = flatten buffer34, row_lengths = Some (RowLensArray NumpyArray Int64 [4, 4, 4]),
      dtype = Int64, device = CPU\<rparr>"

definition unflattened_column :: "int Column" where
  "unflattened_column =
     \<lparr>values = buffer34, row_lengths = Some (RowLensList [4, 4, 4]), dtype = Int64, device = CPU\<rparr>"

definition mismatched_column :: "int Column" where
  "mismatched_column =
     \<lparr>values = \<lparr>atype = NumpyArray, adtype = Int64, ashape = [3], elems = [1, 2, 3]\<rparr>,
      row_lengths = Some (RowLensArray NumpyArray Int64 [5]), dtype = Int64, device = CPU\<rparr>"

definition buffer5 :: "int ndarray" where
  "buffer5 = \<lparr>atype = CupyArray, adtype = Int64, ashape = [5], elems = [1, 2, 3, 4, 5]\<rparr>"

definition device_list_column :: "int Column" where
  "device_list_column =
     \<lparr>values = buffer5, row_lengths = Some (RowLensArray CupyArray Int64 [2, 3]),
      dtype = Int64, device = GPU\<rparr>"

definition buffer3 :: "int ndarray" where
  "buffer3 = \<lparr>atype = CupyArray, adtype = Int64, ashape = [3], elems = [1, 2, 3]\<rparr>"

section \<open>Auxiliary facts\<close>

lemmas column_defs =
  Column_init_def make_array_def make_array_rl_def array_lib_def int_list_dtype_def

lemmas index_defs = py_index_def slice_bounds_def array_slice_def array_index_def rl_item_def

lemma replicate_3: "replicate 3 x = [x, x, x]"
  by (simp add: numeral_3_eq_3)

lemma sum_list_replicate_int: "sum_list (replicate n (int w)) = int (n * w)"
  by (induction n) (simp_all add: algebra_simps)

lemma rl_items_rl_to: "rl_items (rl_to t rl) = rl_items rl"
  by (cases rl) simp_all

lemma rl_resides_rl_to: "rl_resides t r \<Longrightarrow> map_option (rl_to t) r = r"
  by (induction t r rule: rl_resides.induct) simp_all

lemma device_move_I1: "I1 (device_move fn c) = I1 c"
  by (cases fn; cases "row_lengths c")
     (simp_all add: I1_def device_move_def array_len_def cupy_asarray_def cupy_asnumpy_def
        rl_items_rl_to split: list.split)

lemma set_device_cases:
  "set_device cupy c d = Inr c' \<Longrightarrow>
   c' = c \<or> c' = device_move AsArray c \<or> c' = device_move AsNumpy c"
  by (auto simp: set_device_def Let_def split: if_splits)

lemma device_move_device: "device (device_move fn c) = device c"
  by (cases fn) (simp_all add: device_move_def)

text \<open>No branch of the setter assigns the tag \<^verbatim>\<open>_device\<close>.\<close>

lemma set_device_keeps_tag: "set_device cupy c d = Inr c' \<Longrightarrow> device c' = device c"
  using set_device_cases [of cupy c d c'] by (auto simp: device_move_device)

text \<open>
  \<^verbatim>\<open>_make_column\<close> flattens a two-dimensional array before it calls the constructor.
\<close>

lemma make_column_2d:
  "ashape a = [rows, width] \<Longrightarrow>
   make_column cupy (InValue (PyArray a))
     = Column_init cupy (PyArray (flatten a)) (Some (RowLensList (replicate rows (int width))))"
  by (simp add: make_column_def)

subsection \<open>What row access and shape compute\<close>

lemma length_cumsum_from: "length (cumsum_from acc xs) = length xs"
  by (induction xs arbitrary: acc) simp_all

lemma cumsum_from_nth:
  "i < length xs \<Longrightarrow> cumsum_from acc xs ! i = acc + sum_list (take (Suc i) xs)"
proof (induction xs arbitrary: acc i)
  case Nil
  then show ?case by simp
next
  case (Cons x xs)
  show ?case
  proof (cases i)
    case 0
    then show ?thesis by simp
  next
    case (Suc j)
    with Cons.prems have "j < length xs" by simp
    from Cons.IH [OF this, of "acc + x"] Suc show ?thesis by simp
  qed
qed

text \<open>
  The entry of \<^verbatim>\<open>offsets\<close> for row i is the sum of the first i + 1 row lengths minus one,
  and \<^verbatim>\<open>__getitem__\<close> slices from there.
\<close>

lemma offsets_nth:
  assumes "row_lengths c = Some rl" and "i < length (rl_items rl)"
  shows "\<exists>offs. offsets c = Inr offs \<and> length offs = length (rl_items rl)
           \<and> offs ! i = sum_list (take (Suc i) (rl_items rl)) - 1"
  using assms by (simp add: offsets_def cumsum_def length_cumsum_from cumsum_from_nth)

lemma Column_getitem_start:
  assumes "row_lengths c = Some (RowLensArray t d xs)" and "i < length xs"
  shows "Column_getitem c (int i)
           = map_sum id Array
               (array_slice (values c) (sum_list (take (Suc i) xs) - 1)
                  (sum_list (take (Suc i) xs) - 1 + xs ! i))"
  using assms
  by (simp add: Column_getitem_def offsets_def cumsum_def py_index_def rl_item_def
      length_cumsum_from cumsum_from_nth split: sum.split)

text \<open>
  The width that \<^verbatim>\<open>shape\<close> reports is the first row length if some row length differs
  from it, and \<^verbatim>\<open>None\<close> if none does.
\<close>

lemma Column_shape_array:
  assumes "row_lengths c = Some (RowLensArray t d (x # xs))"
  shows "Column_shape c
           = Inr (RowsWidth (Suc (length xs)) (if list_ex (\<lambda>y. y \<noteq> x) xs then Some x else None))"
  using assms by (simp add: Column_shape_def is_ragged_def py_index_def Column_len_def)

subsection \<open>The per-row encoding and back\<close>

lemma py_slice_exact:
  assumes "0 \<le> off" and "0 \<le> n" and "off + n \<le> int (length els)"
  shows "py_slice els off (off + n) = take (nat n) (drop (nat off) els)"
  using assms by (simp add: py_slice_def slice_bounds_def min_def)

lemma pandas_rows_lengths:
  "list_all (\<lambda>n. 0 \<le> n) lens \<Longrightarrow> 0 \<le> off \<Longrightarrow> off + sum_list lens \<le> int (length els) \<Longrightarrow>
   map (\<lambda>r. int (length r)) (pandas_rows els off lens) = lens"
proof (induction lens arbitrary: off)
  case Nil
  then show ?case by simp
next
  case (Cons n ns)
  then have n: "0 \<le> n" and ns: "list_all (\<lambda>n. 0 \<le> n) ns" by simp_all
  from ns have s: "0 \<le> sum_list ns" by (induction ns) auto
  from Cons.prems s have b: "off + n \<le> int (length els)" by simp
  have "length (py_slice els off (off + n)) = nat n"
    using Cons.prems(2) n b by (simp add: py_slice_exact)
  moreover have "map (\<lambda>r. int (length r)) (pandas_rows els (off + n) ns) = ns"
    using Cons.IH [of "off + n"] ns n Cons.prems by (simp add: add.assoc)
  ultimately show ?case using n by simp
qed

lemma pandas_rows_concat:
  "list_all (\<lambda>n. 0 \<le> n) lens \<Longrightarrow> 0 \<le> off \<Longrightarrow> off + sum_list lens \<le> int (length els) \<Longrightarrow>
   concat (pandas_rows els off lens) = take (nat (sum_list lens)) (drop (nat off) els)"
proof (induction lens arbitrary: off)
  case Nil
  then show ?case by simp
next
  case (Cons n ns)
  then have n: "0 \<le> n" and ns: "list_all (\<lambda>n. 0 \<le> n) ns" by simp_all
  from ns have s: "0 \<le> sum_list ns" by (induction ns) auto
  from Cons.prems s have b: "off + n \<le> int (length els)" by simp
  have h: "py_slice els off (off + n) = take (nat n) (drop (nat off) els)"
    using Cons.prems(2) n b by (rule py_slice_exact)
  have t: "concat (pandas_rows els (off + n) ns) = take (nat (sum_list ns)) (drop (nat (off + n)) els)"
    using Cons.IH [of "off + n"] ns n Cons.prems by (simp add: add.assoc)
  have d: "drop (nat (off + n)) els = drop (nat n) (drop (nat off) els)"
    using Cons.prems(2) n by (simp add: nat_add_distrib add.commute)
  have "take (nat n + nat (sum_list ns)) (drop (nat off) els)
          = take (nat n) (drop (nat off) els) @ take (nat (sum_list ns)) (drop (nat n) (drop (nat off) els))"
    by (simp add: take_add)
  then show ?case using h t d n s by (simp add: nat_add_distrib)
qed

text \<open>
  A host column with one-dimensional values whose row lengths are not negative and sum to
  the number of values goes through the per-row encoding and back with its values, dtype and
  row lengths as they were (the dtype of the row-length array is inferred anew).
\<close>

lemma encoding_a_round_trip:
  assumes v: "ashape (values c) = [length (elems (values c))]" "atype (values c) = NumpyArray"
    and r: "row_lengths c = Some (RowLensArray NumpyArray d lens)"
    and l: "list_all (\<lambda>n. 0 \<le> n) lens" "sum_list lens = int (length (elems (values c)))"
    and t: "dtype c = adtype (values c)" "device c = CPU"
  shows "\<exists>s. to_df_column Pandas c = Inr s
           \<and> make_column cupy (from_df_column s)
               = Inr (c\<lparr>row_lengths := Some (RowLensArray NumpyArray (int_list_dtype lens) lens)\<rparr>)"
proof -
  let ?els = "elems (values c)"
  have s: "to_df_column Pandas c = Inr (EncodingA (adtype (values c)) (pandas_rows ?els 0 lens))"
    using v r by (simp add: to_df_column_def is_list_def Series_def build_pandas_list_column_def)
  have a: "map (int \<circ> length) (pandas_rows ?els 0 lens) = lens"
    using l by (simp add: pandas_rows_lengths comp_def)
  have b: "concat (pandas_rows ?els 0 lens) = ?els"
    using l by (simp add: pandas_rows_concat)
  have "make_column cupy (from_df_column (EncodingA (adtype (values c)) (pandas_rows ?els 0 lens)))
          = Inr (c\<lparr>row_lengths := Some (RowLensArray NumpyArray (int_list_dtype lens) lens)\<rparr>)"
    using v t
    by (simp add: from_df_column_def make_column_def Column_init_def make_array_def
        make_array_rl_def a b)
  with s show ?thesis by simp
qed

section \<open>Row extraction\<close>

text \<open>
  Claim C1. Row extraction is to return \<^verbatim>\<open>values[offset(i) : offset(i) + row_lengths[i]]\<close>
  with \<^verbatim>\<open>offset\<close> the exclusive prefix sum, so that the column of six values in rows of
  lengths 2, 3, 1 has the row \<^verbatim>\<open>[3, 4, 5]\<close> at index 1. The property \<^verbatim>\<open>offsets\<close> is the
  inclusive running sum minus one, \<^verbatim>\<open>[1, 4, 5]\<close> here and not \<^verbatim>\<open>[0, 2, 5]\<close>: on this
  column the code returns \<^verbatim>\<open>[5, 6]\<close> at index 1 and \<^verbatim>\<open>[2, 3]\<close> at index 0.
\<close>

theorem C1_getitem_cumsum_minus_one:
  "Column_init False (PyList Int64 [1, 2, 3, 4, 5, 6]) (Some (RowLensList [2, 3, 1]))
     = Inr scenario_column
   \<and> offsets scenario_column = Inr [1, 4, 5]
   \<and> Column_getitem scenario_column 1
       = Inr (Array \<lparr>atype = NumpyArray, adtype = Int64, ashape = [2], elems = [5, 6]\<rparr>)
   \<and> Column_getitem scenario_column 0
       = Inr (Array \<lparr>atype = NumpyArray, adtype = Int64, ashape = [2], elems = [2, 3]\<rparr>)"
  by (simp add: column_defs index_defs scenario_column_def buffer6_def offsets_def cumsum_def
      Column_getitem_def)

section \<open>Round trip through a dataframe\<close>

text \<open>
  Claim C2. \<^verbatim>\<open>from_df(to_df(T))\<close> is to reproduce the values, dtypes and row lengths of T
  for both encodings. For the per-row encoding the scenario column comes back as it was.
  For the offset-boundary encoding \<^verbatim>\<open>to_df\<close> takes the boundaries from \<^verbatim>\<open>offsets\<close>: the
  table with one column of five values in rows of lengths 2 and 3 is written with the
  boundaries \<^verbatim>\<open>[1, 4, 5]\<close> and read back with the row lengths \<^verbatim>\<open>[3, 1]\<close>.
\<close>

theorem C2_encoding_b_round_trip_fails:
  "DictArray_init True [(''a'', InTuple (PyList Int64 [1, 2, 3, 4, 5]) (Some (RowLensList [2, 3])))]
     = Inr [(''a'', device_list_column)]
   \<and> to_df Cudf [(''a'', device_list_column)] = Inr [(''a'', EncodingB buffer5 [1, 4, 5])]
   \<and> from_df True [(''a'', EncodingB buffer5 [1, 4, 5])]
       = Inr [(''a'', device_list_column\<lparr>row_lengths := Some (RowLensArray CupyArray Int32 [3, 1])\<rparr>)]
   \<and> to_df Pandas [(''a'', scenario_column)]
       = Inr [(''a'', EncodingA Int64 [[1, 2], [3, 4, 5], [6]])]
   \<and> from_df False [(''a'', EncodingA Int64 [[1, 2], [3, 4, 5], [6]])]
       = Inr [(''a'', scenario_column)]"
  by (simp add: DictArray_init_def make_column_def column_defs device_list_column_def buffer5_def
      scenario_column_def buffer6_def to_df_column_def is_list_def Series_def offsets_def
      cumsum_def build_cudf_list_column_def build_pandas_list_column_def py_slice_def
      slice_bounds_def wrap32_def from_df_def from_df_column_def adjacent_diffs_def)

section \<open>Invariant I1\<close>

text \<open>
  Claim C3, as stated: \<^verbatim>\<open>sum(row_lengths) == len(values)\<close> holds after every construction.
  The constructor checks nothing: three values with the row lengths \<^verbatim>\<open>[5]\<close> make a Column.
\<close>

theorem C3_construction_does_not_check:
  "Column_init False (PyList Int64 [1, 2, 3]) (Some (RowLensList [5])) = Inr mismatched_column
   \<and> \<not> I1 mismatched_column"
  by (simp add: column_defs mismatched_column_def I1_def array_len_def)

text \<open>
  Claim C3, amended. A Column normalised from a pair of one-dimensional values and row
  lengths satisfies I1 exactly when the lengths given sum to the number of values; a
  two-dimensional array normalised by \<^verbatim>\<open>_make_column\<close> satisfies I1; a flat array gives a
  Column without row lengths; and a device transfer keeps I1.
\<close>

theorem C3_I1_where_it_holds:
  "(ashape (make_array cupy v) = [n] \<and> make_column cupy (InTuple v (Some rl)) = Inr c
      \<longrightarrow> I1 c = (sum_list (rl_items rl) = int n))
   \<and> (ashape a2 = [rows, width] \<and> make_column cupy (InValue (PyArray a2)) = Inr c2 \<longrightarrow> I1 c2)
   \<and> (length (ashape a1) \<le> 1 \<and> make_column cupy (InValue (PyArray a1)) = Inr c1
      \<longrightarrow> row_lengths c1 = None \<and> I1 c1)
   \<and> (I1 c3 \<and> set_device cupy' c3 d = Inr c4 \<longrightarrow> I1 c4)"
proof (intro conjI impI)
  assume "ashape (make_array cupy v) = [n] \<and> make_column cupy (InTuple v (Some rl)) = Inr c"
  then show "I1 c = (sum_list (rl_items rl) = int n)"
    by (cases rl)
       (auto simp: make_column_def Column_init_def Let_def make_array_rl_def I1_def array_len_def
          split: if_splits)
next
  assume "ashape a2 = [rows, width] \<and> make_column cupy (InValue (PyArray a2)) = Inr c2"
  then show "I1 c2"
    by (auto simp: make_column_def Column_init_def Let_def make_array_rl_def make_array_def
          flatten_def I1_def array_len_def sum_list_replicate_int split: if_splits)
next
  assume "length (ashape a1) \<le> 1 \<and> make_column cupy (InValue (PyArray a1)) = Inr c1"
  then show "row_lengths c1 = None"
    by (auto simp: make_column_def Column_init_def Let_def make_array_rl_def make_array_def
          split: if_splits)
  then show "I1 c1" by (simp add: I1_def)
next
  assume "I1 c3 \<and> set_device cupy' c3 d = Inr c4"
  then show "I1 c4"
    using set_device_cases [of cupy' c3 d c4] by (auto simp: device_move_I1)
qed

theorem C3_I1_where_it_holds_witness:
  "ashape (make_array False (PyArray buffer6)) = [6]
   \<and> make_column False (InTuple (PyArray buffer6) (Some (RowLensArray NumpyArray Int64 [2, 3, 1])))
       = Inr scenario_column
   \<and> sum_list (rl_items (RowLensArray NumpyArray Int64 [2, 3, 1])) = int 6
   \<and> I1 scenario_column
   \<and> ashape buffer34 = [3, 4]
   \<and> make_column False (InValue (PyArray buffer34)) = Inr uniform_column
   \<and> I1 uniform_column
   \<and> length (ashape buffer6) \<le> 1
   \<and> make_column False (InValue (PyArray buffer6)) = Inr flat_column
   \<and> row_lengths flat_column = None
   \<and> I1 flat_column
   \<and> set_device True scenario_column (ByEnum GPU) = Inr (device_move AsArray scenario_column)
   \<and> I1 (device_move AsArray scenario_column)"
proof -
  have h1: "ashape (make_array False (PyArray buffer6)) = [6]
            \<and> make_column False (InTuple (PyArray buffer6) (Some (RowLensArray NumpyArray Int64 [2, 3, 1])))
                = Inr scenario_column"
    by (simp add: make_column_def column_defs scenario_column_def buffer6_def)
  have s: "sum_list (rl_items (RowLensArray NumpyArray Int64 [2, 3, 1])) = int 6"
    by simp
  have h2: "ashape buffer34 = [3, 4]
            \<and> make_column False (InValue (PyArray buffer34)) = Inr uniform_column"
    by (simp add: make_column_def column_defs uniform_column_def buffer34_def flatten_def
        replicate_3)
  have h3: "length (ashape buffer6) \<le> 1
            \<and> make_column False (InValue (PyArray buffer6)) = Inr flat_column"
    by (simp add: make_column_def column_defs flat_column_def buffer6_def)
  have t: "set_device True scenario_column (ByEnum GPU) = Inr (device_move AsArray scenario_column)"
    by (simp add: set_device_def scenario_column_def)
  note inst = C3_I1_where_it_holds [of False "PyArray buffer6" 6 "RowLensArray NumpyArray Int64 [2, 3, 1]"
      scenario_column buffer34 3 4 uniform_column buffer6 flat_column scenario_column True
      "ByEnum GPU" "device_move AsArray scenario_column"]
  from inst h1 s have i: "I1 scenario_column" by blast
  from inst h2 have u: "I1 uniform_column" by blast
  from inst h3 have f: "row_lengths flat_column = None \<and> I1 flat_column" by blast
  from inst i t have m: "I1 (device_move AsArray scenario_column)" by blast
  from h1 s i h2 u h3 f t m show ?thesis by blast
qed

section \<open>Two-dimensional input\<close>

text \<open>
  Claim C4. A Column constructed from an array of shape (3, 4) is to equal the one
  constructed from the flattened array of length 12 with the row lengths \<^verbatim>\<open>[4, 4, 4]\<close>.
  \<^verbatim>\<open>_make_column\<close> does that (\<open>make_column_2d\<close>). \<^verbatim>\<open>Column.__init__\<close> on the same array
  sets the row lengths, as a Python list, and keeps the values two-dimensional; row access
  and \<^verbatim>\<open>is_ragged\<close> raise on the Column it makes.
\<close>

theorem C4_init_keeps_two_dimensions:
  "Column_init False (PyArray buffer34) None = Inr unflattened_column
   \<and> Column_init False (PyArray (flatten buffer34)) (Some (RowLensList [4, 4, 4]))
       = Inr uniform_column
   \<and> make_column False (InValue (PyArray buffer34)) = Inr uniform_column
   \<and> unflattened_column \<noteq> uniform_column
   \<and> ashape (values unflattened_column) = [3, 4]
   \<and> ashape (values uniform_column) = [12]
   \<and> Column_getitem unflattened_column 1 = Inl (AttributeError int_no_item_msg)
   \<and> Column_getitem uniform_column 1
       = Inr (Array \<lparr>atype = NumpyArray, adtype = Int64, ashape = [4], elems = [7, 8, 9, 10]\<rparr>)
   \<and> is_ragged unflattened_column = Inl (TypeError bool_not_iterable_msg)
   \<and> is_ragged uniform_column = Inr False"
  by (simp add: make_column_def column_defs index_defs unflattened_column_def uniform_column_def
      buffer34_def replicate_3 flatten_def Column_getitem_def is_ragged_def offsets_def cumsum_def)

section \<open>Shape\<close>

text \<open>
  Claim C5. The width reported by \<^verbatim>\<open>shape\<close> is to be the common row length when all row
  lengths are equal and \<^verbatim>\<open>None\<close> when they are not. The property tests \<^verbatim>\<open>is_ragged\<close> the
  other way round: the column with row lengths \<^verbatim>\<open>[4, 4, 4]\<close> has the shape \<^verbatim>\<open>(3, None)\<close>, and
  the column with row lengths \<^verbatim>\<open>[2, 3, 1]\<close> the shape \<^verbatim>\<open>(3, 2)\<close>.
\<close>

theorem C5_shape_inverted:
  "make_column False (InValue (PyArray buffer34)) = Inr uniform_column
   \<and> Column_shape uniform_column = Inr (RowsWidth 3 None)
   \<and> is_ragged uniform_column = Inr False
   \<and> Column_shape scenario_column = Inr (RowsWidth 3 (Some 2))
   \<and> is_ragged scenario_column = Inr True"
  by (simp add: make_column_def column_defs index_defs scenario_column_def uniform_column_def
      replicate_3 buffer34_def buffer6_def flatten_def Column_shape_def is_ragged_def
      Column_len_def)

section \<open>Boundary arrays\<close>

text \<open>
  Claim C6, as stated: a boundary array that decreases, such as \<^verbatim>\<open>[0, 3, 2]\<close>, makes
  \<^verbatim>\<open>from_df\<close> fail. It returns a table, with the row lengths \<^verbatim>\<open>[3, -1]\<close>.
\<close>

theorem C6_from_df_accepts_decreasing_boundaries:
  "from_df True [(''a'', EncodingB buffer3 [0, 3, 2])]
     = Inr [(''a'', \<lparr>values = buffer3, row_lengths = Some (RowLensArray CupyArray Int32 [3, - 1]),
                     dtype = Int64, device = GPU\<rparr>)]"
  by (simp add: from_df_def from_df_column_def DictArray_init_def make_column_def column_defs
      buffer3_def adjacent_diffs_def wrap32_def)

text \<open>
  Claim C6, amended. \<^verbatim>\<open>from_df\<close> checks neither the order of the boundaries nor their last
  entry: with cupy present, a list column of the offset-boundary encoding always gives a
  table, whose row lengths are the differences of neighbouring boundaries in int32.
\<close>

theorem C6_no_boundary_check:
  assumes "length (ashape a) \<noteq> 2"
  shows "from_df True [(name, EncodingB a b)]
           = Inr [(name, \<lparr>values = a\<lparr>atype := CupyArray\<rparr>,
                           row_lengths = Some (RowLensArray CupyArray Int32 (adjacent_diffs b)),
                           dtype = adtype a, device = GPU\<rparr>)]"
  using assms
  by (simp add: from_df_def from_df_column_def DictArray_init_def make_column_def Column_init_def
      make_array_def make_array_rl_def)

theorem C6_no_boundary_check_witness:
  "length (ashape buffer5) \<noteq> 2
   \<and> from_df True [(''b'', EncodingB buffer5 [0, 2, 5])]
       = Inr [(''b'', \<lparr>values = buffer5, row_lengths = Some (RowLensArray CupyArray Int32 [2, 3]),
                       dtype = Int64, device = GPU\<rparr>)]"
proof -
  have h: "length (ashape buffer5) \<noteq> 2"
    by (simp add: buffer5_def)
  have d: "adjacent_diffs [0, 2, 5] = [2, 3]"
    by (simp add: adjacent_diffs_def wrap32_def)
  have b: "buffer5\<lparr>atype := CupyArray\<rparr> = buffer5 \<and> adtype buffer5 = Int64"
    by (simp add: buffer5_def)
  from C6_no_boundary_check [OF h, of "''b''" "[0, 2, 5]"] h d b show ?thesis
    by simp
qed

section \<open>Device transfer\<close>

text \<open>
  Claim C7, as stated: a transfer to the domain a Column is in raises no error. Without
  cupy the setter raises before it looks at the domains, also for a host Column sent to
  the host.
\<close>

theorem C7_same_domain_raises_without_cupy:
  "device scenario_column = CPU \<and> resides NumpyArray scenario_column
   \<and> cpu False scenario_column = Inl (ValueError no_cupy_msg)"
  by (simp add: scenario_column_def buffer6_def resides_def cpu_def set_device_def)

text \<open>
  Claim C7, amended. With cupy present, a transfer to the domain a Column is in (the one of
  its tag, or the one its buffers are in) returns the Column unchanged, and
  \<^verbatim>\<open>gpu()\<close> followed by \<^verbatim>\<open>cpu()\<close> succeeds and leaves the elements, shape and dtype of
  the values and the row lengths as they were.
\<close>

theorem C7_transfer_with_cupy:
  "(device c = d \<longrightarrow> set_device True c (ByEnum d) = Inr c)
   \<and> (resides CupyArray cg \<longrightarrow> gpu True cg = Inr cg)
   \<and> (resides NumpyArray cn \<longrightarrow> cpu True cn = Inr cn)
   \<and> (\<exists>c1 c2. gpu True c0 = Inr c1 \<and> cpu True c1 = Inr c2
        \<and> elems (values c2) = elems (values c0)
        \<and> ashape (values c2) = ashape (values c0)
        \<and> adtype (values c2) = adtype (values c0)
        \<and> map_option rl_items (row_lengths c2) = map_option rl_items (row_lengths c0))"
proof (intro conjI impI)
  assume "device c = d"
  then show "set_device True c (ByEnum d) = Inr c"
    by (cases d) (simp_all add: set_device_def)
next
  assume r: "resides CupyArray cg"
  then have "device_move AsArray cg = cg"
    by (simp add: resides_def device_move_def cupy_asarray_def rl_resides_rl_to)
  then show "gpu True cg = Inr cg"
    by (simp add: gpu_def set_device_def)
next
  assume r: "resides NumpyArray cn"
  then have "device_move AsNumpy cn = cn"
    by (simp add: resides_def device_move_def cupy_asnumpy_def rl_resides_rl_to)
  then show "cpu True cn = Inr cn"
    by (simp add: cpu_def set_device_def)
next
  show "\<exists>c1 c2. gpu True c0 = Inr c1 \<and> cpu True c1 = Inr c2
          \<and> elems (values c2) = elems (values c0)
          \<and> ashape (values c2) = ashape (values c0)
          \<and> adtype (values c2) = adtype (values c0)
          \<and> map_option rl_items (row_lengths c2) = map_option rl_items (row_lengths c0)"
    by (cases "device c0"; cases "row_lengths c0")
       (simp_all add: gpu_def cpu_def set_device_def device_move_def cupy_asarray_def
          cupy_asnumpy_def rl_items_rl_to)
qed

theorem C7_transfer_with_cupy_witness:
  "device scenario_column = CPU
   \<and> set_device True scenario_column (ByEnum CPU) = Inr scenario_column
   \<and> resides CupyArray device_list_column
   \<and> gpu True device_list_column = Inr device_list_column
   \<and> resides NumpyArray scenario_column
   \<and> cpu True scenario_column = Inr scenario_column
   \<and> (\<exists>c1 c2. gpu True scenario_column = Inr c1 \<and> cpu True c1 = Inr c2
        \<and> elems (values c2) = [1, 2, 3, 4, 5, 6]
        \<and> map_option rl_items (row_lengths c2) = Some [2, 3, 1])"
proof -
  have d: "device scenario_column = CPU"
    by (simp add: scenario_column_def)
  have g: "resides CupyArray device_list_column"
    by (simp add: resides_def device_list_column_def buffer5_def)
  have n: "resides NumpyArray scenario_column"
    by (simp add: resides_def scenario_column_def buffer6_def)
  have v: "elems (values scenario_column) = [1, 2, 3, 4, 5, 6]"
    by (simp add: scenario_column_def buffer6_def)
  have r: "map_option rl_items (row_lengths scenario_column) = Some [2, 3, 1]"
    by (simp add: scenario_column_def)
  from C7_transfer_with_cupy [of scenario_column CPU device_list_column scenario_column
      scenario_column]
  show ?thesis
    using d g n v r by auto
qed

text \<open>
  Claim C8. Without an accelerator runtime, \<^verbatim>\<open>cpu()\<close>, \<^verbatim>\<open>gpu()\<close> and every assignment to
  \<^verbatim>\<open>device\<close> raise the error of the missing runtime, whatever the Column and the target.
\<close>

theorem C8_transfer_without_cupy_raises:
  "cpu False c = Inl (ValueError no_cupy_msg)
   \<and> gpu False c = Inl (ValueError no_cupy_msg)
   \<and> set_device False c d = Inl (ValueError no_cupy_msg)"
  by (simp add: cpu_def gpu_def set_device_def)

text \<open>
  Claim C9. After a transfer to the other domain the tag is to report the target. The setter
  moves the buffers and never assigns \<^verbatim>\<open>_device\<close>: the host column sent to the accelerator
  has its buffers there and still the tag \<^verbatim>\<open>CPU\<close>, and a following \<^verbatim>\<open>cpu()\<close> finds nothing
  to do and leaves them there.
\<close>

theorem C9_device_tag_not_updated:
  "device scenario_column = CPU
   \<and> gpu True scenario_column = Inr (device_move AsArray scenario_column)
   \<and> resides CupyArray (device_move AsArray scenario_column)
   \<and> device (device_move AsArray scenario_column) = CPU
   \<and> cpu True (device_move AsArray scenario_column) = Inr (device_move AsArray scenario_column)"
  by (simp add: gpu_def cpu_def set_device_def device_move_def cupy_asarray_def resides_def
      scenario_column_def)

section \<open>Equality of tables\<close>

text \<open>
  Claim C10. \<^verbatim>\<open>DictArray.__eq__\<close> compares two views made for the comparison, which are
  two objects: it returns \<^verbatim>\<open>False\<close> for every pair of tables, a table and itself included.
\<close>

theorem C10_table_equality_is_false:
  "fst (DictArray_eq self other next_id) = False"
  by (simp add: DictArray_eq_def DictArray_values_def dict_values_eq_def)

end
